theory Spec2Isabelle
  imports Complex_Main "HOL-Library.Multiset" "HOL-Library.Log_Nat"
begin

section \<open>Streaming ETL of device temperatures: the column expressions\<close>

text \<open>
  The script \<^verbatim>\<open>device_streaming_with_kafka.py\<close> builds one streaming query:
  \<^verbatim>\<open>extract\<close> reads a Kafka topic, \<^verbatim>\<open>process\<close> keeps the key and the value as
  strings, \<^verbatim>\<open>transform\<close> pulls six fields out of the JSON text, reduces the three
  temperature encodings to one \<^verbatim>\<open>cpu_value\<close> and projects the output columns, and
  \<^verbatim>\<open>write_to_postgres\<close> saves every micro-batch over JDBC.

  A data frame is modelled as the list of its rows and a column expression as a function
  of the row. SQL NULL is \<open>None\<close>. The operators follow the engine's default
  (non-ANSI) evaluation, which the session builder of the script leaves untouched: where
  ANSI mode would raise (a zero divisor, an index past the end) the result is NULL.
\<close>

subsection \<open>Arithmetic of the engine\<close>

text \<open>
  The script computes on \<^verbatim>\<open>float\<close> elements widened to \<^verbatim>\<open>double\<close>. The arithmetic
  is the platform's, not the script's, so the model takes it as a parameter: the widening
  cast, the literal \<^verbatim>\<open>cast(0.0 as double)\<close>, addition, division and the cast of an
  array size to \<^verbatim>\<open>double\<close>.
\<close>

record ('f, 'd) arith =
  float_to_double :: "'f \<Rightarrow> 'd"
  double_zero :: "'d"
  double_add :: "'d \<Rightarrow> 'd \<Rightarrow> 'd"
  double_div :: "'d \<Rightarrow> 'd \<Rightarrow> 'd"
  int_to_double :: "int \<Rightarrow> 'd"

subsection \<open>SQL operators used by the script\<close>

text \<open>\<^verbatim>\<open>F.when(cond, value)\<close> with no \<^verbatim>\<open>otherwise\<close>: NULL where the condition fails.\<close>

definition sql_when :: "bool \<Rightarrow> 'a option \<Rightarrow> 'a option" where
  "sql_when cond v = (if cond then v else None)"

text \<open>\<^verbatim>\<open>F.coalesce\<close>: the first argument that is not NULL, in argument order.\<close>

fun coalesce :: "'a option list \<Rightarrow> 'a option" where
  "coalesce [] = None"
| "coalesce (Some v # cols) = Some v"
| "coalesce (None # cols) = coalesce cols"

text \<open>
  \<^verbatim>\<open>aggregate(array, zero, merge)\<close>: a left fold over the elements in array order; a
  NULL array gives NULL.
\<close>

definition aggregate ::
  "'a option list option \<Rightarrow> 'b option \<Rightarrow> ('b option \<Rightarrow> 'a option \<Rightarrow> 'b option) \<Rightarrow> 'b option"
where
  "aggregate arr zero merge = (case arr of None \<Rightarrow> None | Some xs \<Rightarrow> foldl merge zero xs)"

text \<open>A cast of a \<^verbatim>\<open>float\<close> column to \<^verbatim>\<open>double\<close>; NULL stays NULL.\<close>

definition cast_double :: "('f, 'd) arith \<Rightarrow> 'f option \<Rightarrow> 'd option" where
  "cast_double ar x = map_option (float_to_double ar) x"

text \<open>\<^verbatim>\<open>acc + x\<close> on doubles: NULL when either operand is NULL.\<close>

definition sql_add :: "('f, 'd) arith \<Rightarrow> 'd option \<Rightarrow> 'd option \<Rightarrow> 'd option" where
  "sql_add ar a b =
     (case a of None \<Rightarrow> None
      | Some x \<Rightarrow> (case b of None \<Rightarrow> None | Some y \<Rightarrow> Some (double_add ar x y)))"

text \<open>\<^verbatim>\<open>size(array)\<close>: the number of elements; \<open>-1\<close> for a NULL array.\<close>

definition size_of :: "'a list option \<Rightarrow> int" where
  "size_of arr = (case arr of None \<Rightarrow> - 1 | Some xs \<Rightarrow> int (length xs))"

text \<open>
  \<^verbatim>\<open>x / n\<close> with a double dividend and an integer divisor: the divisor is cast to
  double; NULL when the dividend is NULL, and NULL when the divisor is zero.
\<close>

definition sql_divide :: "('f, 'd) arith \<Rightarrow> 'd option \<Rightarrow> int \<Rightarrow> 'd option" where
  "sql_divide ar a n =
     (case a of None \<Rightarrow> None
      | Some x \<Rightarrow> if n = 0 then None else Some (double_div ar x (int_to_double ar n)))"

text \<open>\<^verbatim>\<open>map_values(m)\<close>: the values of a map in the order of its entries.\<close>

definition map_values :: "('k \<times> 'v) list option \<Rightarrow> 'v list option" where
  "map_values m = map_option (map snd) m"

text \<open>
  \<^verbatim>\<open>element_at(array, i)\<close> with a positive index, counted from 1: NULL for a NULL
  array and for an index past the end. The script passes the literal 1.
\<close>

definition element_at :: "'a option list option \<Rightarrow> nat \<Rightarrow> 'a option" where
  "element_at arr i =
     (case arr of None \<Rightarrow> None
      | Some xs \<Rightarrow> if 1 \<le> i \<and> i \<le> length xs then xs ! (i - 1) else None)"

subsection \<open>Rows of the frames\<close>

text \<open>
  The first \<^verbatim>\<open>select\<close> of \<^verbatim>\<open>transform\<close> yields six columns; three of them (key,
  device, collected_at) reach the output unchanged, so they form the common part of the
  row types. Array elements and map values may be NULL (\<^verbatim>\<open>array<float>\<close>,
  \<^verbatim>\<open>map<string,float>\<close>); a map keeps its entries in the order of the JSON text.
\<close>

record 'ts identified_row =
  key :: "string option"
  device :: "string option"
  collected_at :: "'ts option"

record ('ts, 'f) decoded_row = "'ts identified_row" +
  thermal_zones :: "'f option list option"
  sensors_cpu :: "'f option"
  sensors :: "(string \<times> 'f option) list option"

record ('ts, 'f, 'd) valued_row = "('ts, 'f) decoded_row" +
  cpu_value :: "'d option"

record ('ts, 'd) canonical_row = "'ts identified_row" +
  cpu_temp :: "'d option"
  gpu_temp :: int

subsection \<open>The derived column \<^verbatim>\<open>cpu_value\<close>\<close>

text \<open>
  Lines 66 to 79 of the script: a \<^verbatim>\<open>coalesce\<close> of three guarded expressions. The
  branches are a double and two floats, so the result is a double and the float branches
  are widened.
\<close>

definition thermal_zones_mean ::
  "('f, 'd) arith \<Rightarrow> 'f option list option \<Rightarrow> 'd option" where
  "thermal_zones_mean ar tz =
     sql_divide ar
       (aggregate tz (Some (double_zero ar)) (\<lambda>acc x. sql_add ar acc (cast_double ar x)))
       (size_of tz)"

definition derive_cpu_temp :: "('f, 'd) arith \<Rightarrow> ('ts, 'f, 'm) decoded_row_scheme \<Rightarrow> 'd option" where
  "derive_cpu_temp ar r =
     coalesce
       [sql_when (thermal_zones r \<noteq> None) (thermal_zones_mean ar (thermal_zones r)),
        sql_when (sensors_cpu r \<noteq> None) (cast_double ar (sensors_cpu r)),
        sql_when (sensors r \<noteq> None) (cast_double ar (element_at (map_values (sensors r)) 1))]"

text \<open>The arithmetic mean, as the expression computes it: the left-to-right double sum
  of the widened elements, divided by their number.\<close>

definition mean :: "('f, 'd) arith \<Rightarrow> 'f list \<Rightarrow> 'd" where
  "mean ar xs =
     double_div ar
       (foldl (double_add ar) (double_zero ar) (map (float_to_double ar) xs))
       (int_to_double ar (int (length xs)))"

subsection \<open>The Kafka source and \<^verbatim>\<open>process\<close>\<close>

text \<open>
  \<^verbatim>\<open>extract\<close> yields the rows of the Kafka source: a binary key and a binary value,
  either of which may be NULL, and the position of the record. Bytes are \<open>char\<close>s.
\<close>

record kafka_row =
  kafka_key :: "string option"
  kafka_value :: "string option"
  topic :: string
  partition :: int
  kafka_offset :: int

text \<open>
  The frame that \<^verbatim>\<open>process\<close> returns is kept with its schema, since \<^verbatim>\<open>fillna\<close>
  goes by the type of each column: a row is the list of its named, typed cells.
\<close>

datatype sql_type = BinaryType | StringType | IntegerType | LongType | FloatType | DoubleType

datatype sql_value = NullValue | StringValue string | LongValue int

record column =
  col_name :: string
  col_type :: sql_type
  col_value :: sql_value

text \<open>\<^verbatim>\<open>.cast("string")\<close> of a binary column: the same bytes, read as a string.\<close>

definition cast_string :: "string option \<Rightarrow> sql_value" where
  "cast_string b = (case b of None \<Rightarrow> NullValue | Some bytes \<Rightarrow> StringValue bytes)"

definition select_key_value :: "kafka_row \<Rightarrow> column list" where
  "select_key_value r =
     [\<lparr>col_name = ''key'', col_type = StringType, col_value = cast_string (kafka_key r)\<rparr>,
      \<lparr>col_name = ''json_value'', col_type = StringType, col_value = cast_string (kafka_value r)\<rparr>]"

text \<open>
  \<^verbatim>\<open>fillna(v)\<close> with an integer \<open>v\<close>: a NULL cell of a numeric column becomes \<open>v\<close>
  (as a value of that column); columns of every other type are left as they are.
\<close>

definition numeric_type :: "sql_type \<Rightarrow> bool" where
  "numeric_type t = (t = IntegerType \<or> t = LongType \<or> t = FloatType \<or> t = DoubleType)"

definition fillna_column :: "int \<Rightarrow> column \<Rightarrow> column" where
  "fillna_column v c =
     (if numeric_type (col_type c) \<and> col_value c = NullValue
      then c\<lparr>col_value := LongValue v\<rparr> else c)"

definition fillna :: "int \<Rightarrow> column list list \<Rightarrow> column list list" where
  "fillna v df = map (map (fillna_column v)) df"

definition process :: "kafka_row list \<Rightarrow> column list list" where
  "process input_df = (let processed_df = map select_key_value input_df in fillna 0 processed_df)"

subsection \<open>\<^verbatim>\<open>transform\<close>: the extracted fields\<close>

text \<open>
  The JSON reader and the casts from text are the engine's. The model takes them as
  parameters: \<^verbatim>\<open>get_json_object\<close> (text and path to the extracted text, NULL when the
  path is absent or the text cannot be read), the casts of a text to timestamp and to
  float, and \<^verbatim>\<open>from_json\<close> at the two schemas the script names.
\<close>

record ('ts, 'f) json_functions =
  get_json_object :: "string \<Rightarrow> string \<Rightarrow> string option"
  cast_timestamp :: "string \<Rightarrow> 'ts option"
  cast_float :: "string \<Rightarrow> 'f option"
  from_json_array_float :: "string \<Rightarrow> 'f option list option"
  from_json_map_string_float :: "string \<Rightarrow> (string \<times> 'f option) list option"

text \<open>A string column of a processed row, by name.\<close>

definition string_col :: "column list \<Rightarrow> string \<Rightarrow> string option" where
  "string_col row name =
     (case find (\<lambda>c. col_name c = name) row of
        None \<Rightarrow> None
      | Some c \<Rightarrow> (case col_value c of StringValue s \<Rightarrow> Some s | _ \<Rightarrow> None))"

text \<open>\<^verbatim>\<open>get_json_object(json_value, path)\<close>: NULL for a NULL \<^verbatim>\<open>json_value\<close>.\<close>

definition json_path :: "('ts, 'f) json_functions \<Rightarrow> column list \<Rightarrow> string \<Rightarrow> string option" where
  "json_path fn row path =
     Option.bind (string_col row ''json_value'') (\<lambda>text. get_json_object fn text path)"

text \<open>Lines 47 to 64: the first \<^verbatim>\<open>select\<close>.\<close>

definition select_fields :: "('ts, 'f) json_functions \<Rightarrow> column list \<Rightarrow> ('ts, 'f) decoded_row" where
  "select_fields fn row =
     \<lparr>key = string_col row ''key'',
      device = json_path fn row ''$.device'',
      collected_at = Option.bind (json_path fn row ''$.collected_at'') (cast_timestamp fn),
      thermal_zones =
        Option.bind (json_path fn row ''$.cpu.thermal_zones'') (from_json_array_float fn),
      sensors_cpu = Option.bind (json_path fn row ''$.cpu.sensors.CPU'') (cast_float fn),
      sensors =
        Option.bind (json_path fn row ''$.cpu.sensors'') (from_json_map_string_float fn)\<rparr>"

text \<open>Line 66: \<^verbatim>\<open>withColumn('cpu_value', ...)\<close> adds one column to the row.\<close>

definition with_cpu_value :: "('ts, 'f) decoded_row \<Rightarrow> 'd option \<Rightarrow> ('ts, 'f, 'd) valued_row" where
  "with_cpu_value r v =
     \<lparr>key = key r, device = device r, collected_at = collected_at r,
      thermal_zones = thermal_zones r, sensors_cpu = sensors_cpu r, sensors = sensors r,
      cpu_value = v\<rparr>"

text \<open>
  Lines 81 to 87: the final \<^verbatim>\<open>select\<close> with \<^verbatim>\<open>cpu_value\<close> renamed to
  \<^verbatim>\<open>cpu_temp\<close>, and \<^verbatim>\<open>withColumn("gpu_temp", F.lit(0))\<close>.
\<close>

definition final_select :: "('ts, 'f, 'd) valued_row \<Rightarrow> ('ts, 'd) canonical_row" where
  "final_select v =
     \<lparr>key = key v, device = device v, collected_at = collected_at v,
      cpu_temp = cpu_value v, gpu_temp = 0\<rparr>"

definition transform_row ::
  "('ts, 'f) json_functions \<Rightarrow> ('f, 'd) arith \<Rightarrow> column list \<Rightarrow> ('ts, 'd) canonical_row" where
  "transform_row fn ar row =
     (let transformed = select_fields fn row
      in final_select (with_cpu_value transformed (derive_cpu_temp ar transformed)))"

definition transform ::
  "('ts, 'f) json_functions \<Rightarrow> ('f, 'd) arith \<Rightarrow> column list list \<Rightarrow> ('ts, 'd) canonical_row list"
where
  "transform fn ar processed_df = map (transform_row fn ar) processed_df"

subsection \<open>\<^verbatim>\<open>write_to_postgres\<close> and the streaming query\<close>

text \<open>
  The JDBC writer is the engine's: given the options, the rows and the database it either
  returns with the database updated or raises, leaving the database as the failed attempt
  left it.
\<close>

record database_info =
  db_url :: string
  table :: string
  user :: string
  password :: string
  driver :: string
  mode :: string

datatype 'db save_result = Saved 'db | SaveFailed string 'db

type_synonym ('row, 'db) jdbc_writer = "database_info \<Rightarrow> 'row list \<Rightarrow> 'db \<Rightarrow> 'db save_result"

text \<open>
  Lines 89 to 99: the function builds the writer from the configuration and calls
  \<^verbatim>\<open>save\<close>. It ignores the batch id and has no handler, so an exception of the writer
  leaves it as it came.
\<close>

definition write_to_postgres ::
  "database_info \<Rightarrow> ('row, 'db) jdbc_writer \<Rightarrow> 'row list \<Rightarrow> nat \<Rightarrow> 'db \<Rightarrow> 'db save_result" where
  "write_to_postgres database_info save batch_df batch_id db = save database_info batch_df db"

text \<open>
  The query started by \<^verbatim>\<open>start_streaming\<close>. Its progress is the engine's commit log:
  the number of micro-batches committed so far. The engine hands each micro-batch to the
  \<^verbatim>\<open>foreachBatch\<close> function and commits the batch when the function returns; when the
  function raises, the query stops with that exception and the batch stays uncommitted.
  \<^verbatim>\<open>awaitTermination\<close> then returns control, so no later batch is run.
\<close>

record 'db query_state =
  committed :: nat
  database :: 'db
  exception :: "string option"

definition run_batch ::
  "('ts, 'f) json_functions \<Rightarrow> ('f, 'd) arith \<Rightarrow> database_info
     \<Rightarrow> (('ts, 'd) canonical_row, 'db) jdbc_writer
     \<Rightarrow> 'db query_state \<Rightarrow> kafka_row list \<Rightarrow> 'db query_state" where
  "run_batch fn ar database_info save q input_df =
     (if exception q \<noteq> None then q
      else
        let processed_df = process input_df;
            merged_df = transform fn ar processed_df
        in case write_to_postgres database_info save merged_df (committed q) (database q) of
             Saved db \<Rightarrow> q\<lparr>committed := Suc (committed q), database := db\<rparr>
           | SaveFailed msg db \<Rightarrow> q\<lparr>database := db, exception := Some msg\<rparr>)"

definition start_streaming ::
  "('ts, 'f) json_functions \<Rightarrow> ('f, 'd) arith \<Rightarrow> database_info
     \<Rightarrow> (('ts, 'd) canonical_row, 'db) jdbc_writer
     \<Rightarrow> 'db \<Rightarrow> kafka_row list list \<Rightarrow> 'db query_state" where
  "start_streaming fn ar database_info save db batches =
     foldl (run_batch fn ar database_info save)
       \<lparr>committed = 0, database = db, exception = None\<rparr> batches"

subsection \<open>Double precision arithmetic\<close>

text \<open>
  For the concrete cases the arithmetic is IEEE 754 binary64 on finite values, round to
  nearest with ties to even: the exact result of an operation, rounded to a significand of
  53 bits. Values are rationals; the exponent range is not bounded, so overflow,
  subnormal numbers, infinities and NaN are outside this instance. A \<^verbatim>\<open>float\<close> widens
  to the same value, and an array size (a 32-bit integer) is exact as a double.
\<close>

definition pow2 :: "int \<Rightarrow> rat" where
  "pow2 e = (if 0 \<le> e then 2 ^ nat e else 1 / 2 ^ nat (- e))"

text \<open>The exponent \<open>e\<close> with \<open>2^e \<le> |x| < 2^(e+1)\<close>, for \<open>x \<noteq> 0\<close>.\<close>

definition floor_log2 :: "rat \<Rightarrow> int" where
  "floor_log2 x =
     (let (p, q) = quotient_of \<bar>x\<bar>; d = bitlen p - bitlen q
      in if pow2 d \<le> \<bar>x\<bar> then d else d - 1)"

definition round_half_even :: "rat \<Rightarrow> int" where
  "round_half_even q =
     (let n = \<lfloor>q\<rfloor>; f = q - of_int n
      in if f < 1 / 2 then n else if 1 / 2 < f then n + 1 else if even n then n else n + 1)"

definition round_to :: "nat \<Rightarrow> rat \<Rightarrow> rat" where
  "round_to precision x =
     (if x = 0 then 0
      else let ulp = pow2 (floor_log2 x - (int precision - 1))
           in of_int (round_half_even (x / ulp)) * ulp)"

definition binary64 :: "(rat, rat) arith" where
  "binary64 =
     \<lparr>float_to_double = (\<lambda>x. x),
      double_zero = 0,
      double_add = (\<lambda>x y. round_to 53 (x + y)),
      double_div = (\<lambda>x y. round_to 53 (x / y)),
      int_to_double = of_int\<rparr>"

text \<open>A value is a double (a float) when rounding leaves it as it is.\<close>

definition is_double :: "rat \<Rightarrow> bool" where
  "is_double x = (round_to 53 x = x)"

definition is_float :: "rat \<Rightarrow> bool" where
  "is_float x = (round_to 24 x = x)"

text \<open>The exact sums after each element, from the left.\<close>

fun running_sums :: "rat \<Rightarrow> rat list \<Rightarrow> rat list" where
  "running_sums a [] = []"
| "running_sums a (x # xs) = (a + x) # running_sums (a + x) xs"

subsection \<open>Sample inputs\<close>

text \<open>
  The JSON text of a report with two thermal zones and a CPU sensor, a text that is not
  JSON, and the engine's answers on the two: the extracted texts of the first, NULL at
  every path of the second.
\<close>

definition report_text :: string where
  \<open>report_text =
     ''{"device":"pi1","collected_at":"2024-01-01T00:00:00Z","cpu":{"thermal_zones":[40.0,44.0],"sensors":{"CPU":99.0}}}''\<close>

definition malformed_text :: string where
  "malformed_text = ''not json''"

definition sample_functions :: "(string, rat) json_functions" where
  \<open>sample_functions =
     \<lparr>get_json_object = (\<lambda>text path.
        if text = report_text
        then map_of
          [(''$.device'', ''pi1''),
           (''$.collected_at'', ''2024-01-01T00:00:00Z''),
           (''$.cpu.thermal_zones'', ''[40.0,44.0]''),
           (''$.cpu.sensors.CPU'', ''99.0''),
           (''$.cpu.sensors'', ''{"CPU":99.0}'')] path
        else None),
      cast_timestamp = Some,
      cast_float = map_of [(''99.0'', 99)],
      from_json_array_float = map_of [(''[40.0,44.0]'', [Some 40, Some 44])],
      from_json_map_string_float = map_of [(''{"CPU":99.0}'', [(''CPU'', Some 99)])]\<rparr>\<close>

definition record_at :: "int \<Rightarrow> string \<Rightarrow> kafka_row" where
  "record_at n text =
     \<lparr>kafka_key = Some ''pi1'', kafka_value = Some text, topic = ''devices'', partition = 0,
      kafka_offset = n\<rparr>"

definition batch_of_five :: "kafka_row list" where
  "batch_of_five =
     [record_at 0 report_text, record_at 1 report_text, record_at 2 malformed_text,
      record_at 3 report_text, record_at 4 report_text]"

definition postgres :: database_info where
  "postgres =
     \<lparr>db_url = ''jdbc:postgresql://localhost:5432/devices'', table = ''temperatures'',
      user = ''etl'', password = ''secret'', driver = ''org.postgresql.Driver'',
      mode = ''append''\<rparr>"

text \<open>A writer that appends the rows to the table, and one whose connection fails.\<close>

definition appending_writer :: "('row, 'row list) jdbc_writer" where
  "appending_writer info rows db = Saved (db @ rows)"

definition failing_writer :: "('row, 'row list) jdbc_writer" where
  "failing_writer info rows db = SaveFailed ''connection refused'' db"

text \<open>Decoded reports: one per temperature encoding, and one with none.\<close>

definition report_a :: "(string, rat) decoded_row" where
  "report_a =
     \<lparr>key = Some ''pi1'', device = Some ''pi1'', collected_at = Some ''2024-01-01T00:00:00Z'',
      thermal_zones = Some [Some 40, Some 44], sensors_cpu = Some 99,
      sensors = Some [(''CPU'', Some 99)]\<rparr>"

definition report_b :: "(string, rat) decoded_row" where
  "report_b =
     \<lparr>key = Some ''pi2'', device = Some ''pi2'', collected_at = None,
      thermal_zones = None, sensors_cpu = Some (111 / 2),
      sensors = Some [(''CPU'', Some (111 / 2))]\<rparr>"

definition report_c :: "(string, rat) decoded_row" where
  "report_c =
     \<lparr>key = Some ''pi3'', device = Some ''pi3'', collected_at = None,
      thermal_zones = None, sensors_cpu = None,
      sensors = Some [(''SoC'', Some 60), (''GPU'', Some 70)]\<rparr>"

definition report_without_temperature :: "(string, rat) decoded_row" where
  "report_without_temperature =
     \<lparr>key = Some ''pi4'', device = Some ''pi4'', collected_at = None,
      thermal_zones = None, sensors_cpu = None, sensors = None\<rparr>"

definition report_of_zones :: "rat list \<Rightarrow> (string, rat) decoded_row" where
  "report_of_zones xs =
     \<lparr>key = Some ''pi5'', device = Some ''pi5'', collected_at = None,
      thermal_zones = Some (map Some xs), sensors_cpu = None, sensors = None\<rparr>"

section \<open>Properties\<close>

lemma foldl_sql_add_None:
  "foldl (\<lambda>acc x. sql_add ar acc (cast_double ar x)) None xs = None"
  by (induction xs) (simp_all add: sql_add_def)

lemma foldl_sql_add_Some:
  "foldl (\<lambda>acc x. sql_add ar acc (cast_double ar x)) (Some a) (map Some xs)
     = Some (foldl (double_add ar) a (map (float_to_double ar) xs))"
  by (induction xs arbitrary: a) (simp_all add: sql_add_def cast_double_def)

lemma thermal_zones_mean_nonempty:
  "xs \<noteq> [] \<Longrightarrow> thermal_zones_mean ar (Some (map Some xs)) = Some (mean ar xs)"
  by (simp add: thermal_zones_mean_def aggregate_def foldl_sql_add_Some sql_divide_def
      size_of_def mean_def)

lemma thermal_zones_mean_empty: "thermal_zones_mean ar (Some []) = None"
  by (simp add: thermal_zones_mean_def aggregate_def sql_divide_def size_of_def)

lemma foldl_sql_add_null_element:
  "None \<in> set tz \<Longrightarrow> foldl (\<lambda>acc x. sql_add ar acc (cast_double ar x)) acc tz = None"
proof (induction tz arbitrary: acc)
  case Nil
  then show ?case by simp
next
  case (Cons x tz)
  show ?case
  proof (cases x)
    case None
    have "sql_add ar acc (cast_double ar None) = None"
      by (cases acc) (simp_all add: sql_add_def cast_double_def)
    with None show ?thesis by (simp add: foldl_sql_add_None)
  next
    case (Some v)
    with Cons.prems have "None \<in> set tz" by simp
    then show ?thesis using Cons.IH by simp
  qed
qed

lemma thermal_zones_mean_null_element:
  "None \<in> set tz \<Longrightarrow> thermal_zones_mean ar (Some tz) = None"
  by (simp add: thermal_zones_mean_def aggregate_def foldl_sql_add_null_element sql_divide_def)

lemma coalesce_single: "coalesce [v] = v"
  by (cases v) simp_all

lemma thermal_zones_mean_null: "thermal_zones_mean ar None = None"
  by (simp add: thermal_zones_mean_def aggregate_def sql_divide_def)

lemma derive_first_branch_null:
  "thermal_zones_mean ar (thermal_zones r) = None
     \<Longrightarrow> derive_cpu_temp ar r = derive_cpu_temp ar (r\<lparr>thermal_zones := None\<rparr>)"
  by (simp add: derive_cpu_temp_def sql_when_def)

subsection \<open>The thermal zones come first\<close>

text \<open>
  C1, as the code has it. When \<^verbatim>\<open>thermal_zones\<close> is not NULL, not empty and holds no
  NULL element, the derived value is the mean of its elements, whatever \<^verbatim>\<open>sensors_cpu\<close>
  and \<^verbatim>\<open>sensors\<close> hold. When it is empty or holds a NULL element, the first branch is
  NULL (a zero divisor, or a NULL sum), and the derived value is the one the later
  branches give, as if \<^verbatim>\<open>thermal_zones\<close> were NULL.
\<close>

theorem derive_thermal_zones_priority:
  "(thermal_zones r = Some (map Some xs) \<and> xs \<noteq> []
      \<longrightarrow> derive_cpu_temp ar r = Some (mean ar xs)) \<and>
   (thermal_zones r = Some tz \<and> (tz = [] \<or> None \<in> set tz)
      \<longrightarrow> derive_cpu_temp ar r = derive_cpu_temp ar (r\<lparr>thermal_zones := None\<rparr>))"
proof (intro conjI impI)
  assume "thermal_zones r = Some (map Some xs) \<and> xs \<noteq> []"
  then show "derive_cpu_temp ar r = Some (mean ar xs)"
    by (simp add: derive_cpu_temp_def sql_when_def thermal_zones_mean_nonempty)
next
  assume "thermal_zones r = Some tz \<and> (tz = [] \<or> None \<in> set tz)"
  then have "thermal_zones_mean ar (thermal_zones r) = None"
    by (auto simp: thermal_zones_mean_empty thermal_zones_mean_null_element)
  then show "derive_cpu_temp ar r = derive_cpu_temp ar (r\<lparr>thermal_zones := None\<rparr>)"
    by (rule derive_first_branch_null)
qed

text \<open>
  The report with zones 40 and 44 and a CPU sensor at 99 gives 42; with its zones emptied
  it gives the 99 of the sensor.
\<close>

theorem derive_thermal_zones_priority_witness:
  "derive_cpu_temp binary64 report_a = Some 42 \<and>
   derive_cpu_temp binary64 (report_a\<lparr>thermal_zones := Some []\<rparr>) = Some 99"
proof -
  have zones: "thermal_zones report_a = Some (map Some [40, 44]) \<and> [40, 44 :: rat] \<noteq> []"
    by (simp add: report_a_def)
  have mean_value: "mean binary64 [40, 44] = 42"
    by code_simp
  have emptied: "thermal_zones (report_a\<lparr>thermal_zones := Some []\<rparr>) = Some []
      \<and> ([] = [] \<or> None \<in> set ([] :: rat option list))"
    by simp
  have later: "derive_cpu_temp binary64 (report_a\<lparr>thermal_zones := None\<rparr>) = Some 99"
    by code_simp
  from derive_thermal_zones_priority [of report_a "[40, 44]" binary64 "[]"] zones mean_value
  have first: "derive_cpu_temp binary64 report_a = Some 42"
    by simp
  from derive_thermal_zones_priority
    [of "report_a\<lparr>thermal_zones := Some []\<rparr>" "[]" binary64 "[]"] emptied later
  have second: "derive_cpu_temp binary64 (report_a\<lparr>thermal_zones := Some []\<rparr>) = Some 99"
    by simp
  from first second show ?thesis by simp
qed

text \<open>
  C1 as stated fails on an empty \<^verbatim>\<open>thermal_zones\<close>: the value of \<^verbatim>\<open>sensors_cpu\<close>,
  a lower branch, is the result.
\<close>

theorem empty_thermal_zones_counterexample:
  "derive_cpu_temp binary64
     \<lparr>key = Some ''pi2'', device = Some ''pi2'', collected_at = None :: string option,
      thermal_zones = Some [], sensors_cpu = Some (111 / 2),
      sensors = Some [(''CPU'', Some (111 / 2))]\<rparr>
   = Some (111 / 2)"
  by code_simp

subsection \<open>The order of the thermal zones\<close>

text \<open>
  The rounding at known values: the doubles nearest to one third and to one tenth, and the
  float nearest to one tenth.
\<close>

lemma round_to_known_values:
  "round_to 53 (1 / 3) = 6004799503160661 / 18014398509481984"
  "round_to 53 (1 / 10) = 3602879701896397 / 36028797018963968"
  "round_to 24 (1 / 10) = 13421773 / 134217728"
  by code_simp+

lemma foldl_exact_sums:
  "list_all is_double (running_sums a xs)
     \<Longrightarrow> foldl (double_add binary64) a (map (float_to_double binary64) xs) = a + sum_list xs"
proof (induction xs arbitrary: a)
  case Nil
  then show ?case by simp
next
  case (Cons x xs)
  from Cons.prems have "is_double (a + x)"
    and rest: "list_all is_double (running_sums (a + x) xs)"
    by simp_all
  then have exact: "round_to 53 (a + x) = a + x"
    by (simp add: is_double_def)
  have "foldl (double_add binary64) a (map (float_to_double binary64) (x # xs))
      = foldl (double_add binary64) (a + x) (map (float_to_double binary64) xs)"
    using exact by (simp add: binary64_def)
  also have "\<dots> = (a + x) + sum_list xs"
    using rest by (rule Cons.IH)
  finally show ?case by (simp add: add.assoc)
qed

lemma mean_exact_sums:
  "list_all is_double (running_sums 0 xs)
     \<Longrightarrow> mean binary64 xs = round_to 53 (sum_list xs / of_nat (length xs))"
proof -
  assume "list_all is_double (running_sums 0 xs)"
  then have "foldl (double_add binary64) 0 (map (float_to_double binary64) xs) = 0 + sum_list xs"
    by (rule foldl_exact_sums)
  then show ?thesis
    by (simp add: mean_def binary64_def)
qed

text \<open>
  C3, as the code has it. The mean is the double sum of the elements taken from the left,
  divided by their number, and a double sum is rounded after every addition. When no
  addition rounds, in the order given and in another order of the same elements, the
  derived value is the exact mean rounded once to a double, and the two orders give the
  same value.
\<close>

theorem derive_mean_exact_sums:
  assumes "thermal_zones r = Some (map Some xs)" and "xs \<noteq> []" and "mset ys = mset xs"
    and "list_all is_double (running_sums 0 xs)"
    and "list_all is_double (running_sums 0 ys)"
  shows "derive_cpu_temp binary64 r = Some (round_to 53 (sum_list xs / of_nat (length xs))) \<and>
    derive_cpu_temp binary64 (r\<lparr>thermal_zones := Some (map Some ys)\<rparr>)
      = derive_cpu_temp binary64 r"
proof -
  from assms(1,2) have given: "derive_cpu_temp binary64 r = Some (mean binary64 xs)"
    by (simp add: derive_cpu_temp_def sql_when_def thermal_zones_mean_nonempty)
  from assms(2,3) have "ys \<noteq> []"
    by auto
  then have other: "derive_cpu_temp binary64 (r\<lparr>thermal_zones := Some (map Some ys)\<rparr>)
      = Some (mean binary64 ys)"
    by (simp add: derive_cpu_temp_def sql_when_def thermal_zones_mean_nonempty)
  have "sum_mset (mset ys) = sum_mset (mset xs)"
    using assms(3) by simp
  then have sums: "sum_list ys = sum_list xs"
    by (simp add: sum_mset_sum_list)
  have lengths: "length ys = length xs"
    using assms(3) by (rule mset_eq_length)
  have "mean binary64 ys = round_to 53 (sum_list ys / of_nat (length ys))"
    using assms(5) by (rule mean_exact_sums)
  also have "\<dots> = round_to 53 (sum_list xs / of_nat (length xs))"
    by (simp add: sums lengths)
  finally have same: "mean binary64 ys = mean binary64 xs"
    using assms(4) by (simp add: mean_exact_sums)
  from given other same assms(4) show ?thesis
    by (simp add: mean_exact_sums)
qed

theorem derive_mean_exact_sums_witness:
  "derive_cpu_temp binary64 report_a = Some 42 \<and>
   derive_cpu_temp binary64 (report_a\<lparr>thermal_zones := Some [Some 44, Some 40]\<rparr>) = Some 42"
proof -
  have zones: "thermal_zones report_a = Some (map Some [40, 44])"
    by (simp add: report_a_def)
  have filled: "[40, 44 :: rat] \<noteq> []"
    by simp
  have same_elements: "mset [44, 40 :: rat] = mset [40, 44]"
    by simp
  have exact_given: "list_all is_double (running_sums 0 [40, 44])"
    by code_simp
  have exact_other: "list_all is_double (running_sums 0 [44, 40])"
    by code_simp
  have rounded: "round_to 53 (sum_list [40, 44] / of_nat (length [40, 44 :: rat])) = 42"
    by code_simp
  from derive_mean_exact_sums [OF zones filled same_elements exact_given exact_other] rounded
  show ?thesis by simp
qed

text \<open>
  C3 as stated fails where an addition rounds. The four floats \<open>2^60\<close>, 4, \<open>-2^60\<close>
  and 0 have the mean 0 in this order, since \<open>2^60 + 4\<close> rounds to \<open>2^60\<close>, and the
  mean 1 with the second and the third exchanged.
\<close>

theorem sum_order_counterexample:
  "derive_cpu_temp binary64
     (report_of_zones [1152921504606846976, 4, - 1152921504606846976, 0]) = Some 0 \<and>
   derive_cpu_temp binary64
     (report_of_zones [1152921504606846976, - 1152921504606846976, 4, 0]) = Some 1 \<and>
   list_all is_float [1152921504606846976, 4, - 1152921504606846976, 0]"
  by code_simp

subsection \<open>The CPU sensor and the first sensor\<close>

text \<open>
  C4. When \<^verbatim>\<open>thermal_zones\<close> is NULL and \<^verbatim>\<open>sensors_cpu\<close> is not, the derived value is
  \<^verbatim>\<open>sensors_cpu\<close> itself, widened to the double type of the column and otherwise
  unchanged, whatever \<^verbatim>\<open>sensors\<close> holds.
\<close>

theorem derive_sensors_cpu:
  "thermal_zones r = None \<Longrightarrow> sensors_cpu r = Some x
     \<Longrightarrow> derive_cpu_temp ar r = Some (float_to_double ar x)"
  by (simp add: derive_cpu_temp_def sql_when_def cast_double_def)

theorem derive_sensors_cpu_witness: "derive_cpu_temp binary64 report_b = Some (111 / 2)"
proof -
  have zones: "thermal_zones report_b = None"
    by (simp add: report_b_def)
  have sensor: "sensors_cpu report_b = Some (111 / 2)"
    by (simp add: report_b_def)
  from derive_sensors_cpu [OF zones sensor, of binary64] show ?thesis
    by (simp add: binary64_def)
qed

text \<open>
  C5. When \<^verbatim>\<open>thermal_zones\<close> and \<^verbatim>\<open>sensors_cpu\<close> are NULL and \<^verbatim>\<open>sensors\<close> is a map
  with at least one entry, the derived value is the value of the first entry of the map,
  in the order the map keeps its entries (NULL when that value is NULL).
\<close>

theorem derive_first_sensor:
  "thermal_zones r = None \<Longrightarrow> sensors_cpu r = None
     \<Longrightarrow> sensors r = Some ((name, v) # entries)
     \<Longrightarrow> derive_cpu_temp ar r = map_option (float_to_double ar) v"
  by (simp add: derive_cpu_temp_def sql_when_def cast_double_def element_at_def
      map_values_def coalesce_single)

theorem derive_first_sensor_witness: "derive_cpu_temp binary64 report_c = Some 60"
proof -
  have zones: "thermal_zones report_c = None"
    by (simp add: report_c_def)
  have sensor: "sensors_cpu report_c = None"
    by (simp add: report_c_def)
  have entries: "sensors report_c = Some ((''SoC'', Some 60) # [(''GPU'', Some 70)])"
    by (simp add: report_c_def)
  from derive_first_sensor [OF zones sensor entries, of binary64] show ?thesis
    by (simp add: binary64_def)
qed

subsection \<open>Every report has a derived value\<close>

text \<open>
  C6. The derived value is defined for every report: it is the first of the three
  branches that is not NULL, and NULL when there is none. No branch can fail: the mean
  of an empty array is NULL (the zero divisor) and the first value of an empty map is
  NULL (the index past the end). When the three temperature fields are NULL the derived
  value is NULL, and so is \<^verbatim>\<open>cpu_temp\<close> of the output row.
\<close>

theorem derive_cpu_temp_total:
  "derive_cpu_temp ar r =
     (case thermal_zones_mean ar (thermal_zones r) of
        Some m \<Rightarrow> Some m
      | None \<Rightarrow>
          (case sensors_cpu r of
             Some x \<Rightarrow> Some (float_to_double ar x)
           | None \<Rightarrow>
               (case sensors r of
                  None \<Rightarrow> None
                | Some [] \<Rightarrow> None
                | Some ((name, v) # entries) \<Rightarrow> map_option (float_to_double ar) v))) \<and>
   thermal_zones_mean ar (Some []) = None \<and>
   element_at (map_values (Some ([] :: (string \<times> 'f option) list))) 1 = None \<and>
   (thermal_zones r = None \<and> sensors_cpu r = None \<and> sensors r = None
      \<longrightarrow> derive_cpu_temp ar r = None
        \<and> cpu_temp (final_select (with_cpu_value r (derive_cpu_temp ar r))) = None)"
proof (intro conjI impI)
  show "derive_cpu_temp ar r =
     (case thermal_zones_mean ar (thermal_zones r) of
        Some m \<Rightarrow> Some m
      | None \<Rightarrow>
          (case sensors_cpu r of
             Some x \<Rightarrow> Some (float_to_double ar x)
           | None \<Rightarrow>
               (case sensors r of
                  None \<Rightarrow> None
                | Some [] \<Rightarrow> None
                | Some ((name, v) # entries) \<Rightarrow> map_option (float_to_double ar) v)))"
    by (cases "thermal_zones r")
      (auto simp: derive_cpu_temp_def sql_when_def cast_double_def element_at_def
        map_values_def thermal_zones_mean_null coalesce_single
        split: option.splits list.splits)
next
  show "thermal_zones_mean ar (Some []) = None"
    by (rule thermal_zones_mean_empty)
next
  show "element_at (map_values (Some ([] :: (string \<times> 'f option) list))) 1 = None"
    by (simp add: element_at_def map_values_def)
next
  assume nulls: "thermal_zones r = None \<and> sensors_cpu r = None \<and> sensors r = None"
  then show "derive_cpu_temp ar r = None"
    by (simp add: derive_cpu_temp_def sql_when_def)
  with nulls show "cpu_temp (final_select (with_cpu_value r (derive_cpu_temp ar r))) = None"
    by (simp add: final_select_def with_cpu_value_def)
qed

theorem derive_cpu_temp_total_witness:
  "derive_cpu_temp binary64 report_without_temperature = None \<and>
   cpu_temp (final_select (with_cpu_value report_without_temperature
     (derive_cpu_temp binary64 report_without_temperature))) = (None :: rat option)"
proof -
  have nulls: "thermal_zones report_without_temperature = None
      \<and> sensors_cpu report_without_temperature = None
      \<and> sensors report_without_temperature = None"
    by (simp add: report_without_temperature_def)
  have "thermal_zones report_without_temperature = None
      \<and> sensors_cpu report_without_temperature = None
      \<and> sensors report_without_temperature = None
    \<longrightarrow> derive_cpu_temp binary64 report_without_temperature = None
      \<and> cpu_temp (final_select (with_cpu_value report_without_temperature
          (derive_cpu_temp binary64 report_without_temperature))) = None"
    using derive_cpu_temp_total [of binary64 report_without_temperature] by blast
  with nulls show ?thesis by blast
qed

subsection \<open>The output row\<close>

text \<open>
  C7. The final \<^verbatim>\<open>select\<close> copies \<^verbatim>\<open>key\<close>, \<^verbatim>\<open>device\<close> and \<^verbatim>\<open>collected_at\<close> of the
  row, takes the derived value as \<^verbatim>\<open>cpu_temp\<close> and sets \<^verbatim>\<open>gpu_temp\<close> to the constant
  0; the output row has no other column.
\<close>

theorem final_select_fields:
  "final_select (with_cpu_value r t) =
     \<lparr>key = key r, device = device r, collected_at = collected_at r,
      cpu_temp = t, gpu_temp = 0\<rparr>"
  by (simp add: final_select_def with_cpu_value_def)

theorem final_select_fields_witness:
  "final_select (with_cpu_value report_a (Some (42 :: rat))) =
     \<lparr>key = Some ''pi1'', device = Some ''pi1'', collected_at = Some ''2024-01-01T00:00:00Z'',
      cpu_temp = Some 42, gpu_temp = 0\<rparr>"
  using final_select_fields [of report_a "Some (42 :: rat)"] by (simp add: report_a_def)

subsection \<open>\<^verbatim>\<open>process\<close> is the selection\<close>

lemma fillna_select_key_value:
  "map (fillna_column v) (select_key_value r) = select_key_value r"
  by (simp add: select_key_value_def fillna_column_def numeric_type_def)

lemma process_select: "process input_df = map select_key_value input_df"
  by (simp add: process_def fillna_def fillna_select_key_value)

lemma string_col_key: "string_col (select_key_value r) ''key'' = kafka_key r"
  by (cases "kafka_key r") (simp_all add: string_col_def select_key_value_def cast_string_def)

lemma string_col_json_value: "string_col (select_key_value r) ''json_value'' = kafka_value r"
  by (cases "kafka_value r") (simp_all add: string_col_def select_key_value_def cast_string_def)

text \<open>
  C10. \<^verbatim>\<open>process\<close> returns the selection of the two columns cast to string:
  \<^verbatim>\<open>fillna(0)\<close> changes no cell of it, since both columns are strings. The \<^verbatim>\<open>key\<close>
  column of every output row holds the bytes of the Kafka key (NULL for a NULL key), and
  \<^verbatim>\<open>json_value\<close> those of the value.
\<close>

theorem process_is_select:
  "process input_df = map select_key_value input_df \<and>
   fillna 0 (map select_key_value input_df) = map select_key_value input_df \<and>
   map (\<lambda>row. string_col row ''key'') (process input_df) = map kafka_key input_df \<and>
   map (\<lambda>row. string_col row ''json_value'') (process input_df) = map kafka_value input_df"
  by (simp add: process_select fillna_def fillna_select_key_value string_col_key
      string_col_json_value)

theorem process_is_select_witness:
  "process [record_at 0 report_text] =
     [[\<lparr>col_name = ''key'', col_type = StringType, col_value = StringValue ''pi1''\<rparr>,
       \<lparr>col_name = ''json_value'', col_type = StringType,
        col_value = StringValue report_text\<rparr>]]"
  using process_is_select [of "[record_at 0 report_text]"]
  by (simp add: select_key_value_def record_at_def cast_string_def)

subsection \<open>\<^verbatim>\<open>transform\<close> row by row\<close>

lemma json_path_select:
  "json_path fn (select_key_value r) path =
     Option.bind (kafka_value r) (\<lambda>text. get_json_object fn text path)"
  by (simp add: json_path_def string_col_json_value)

text \<open>
  C8. The output row of a record depends on the record alone. Where the same record
  comes twice in a stream, whatever comes before, between and after, the two output rows
  are the same row, and the rows of the other records are what they are without it.
\<close>

theorem transform_repeatable:
  "transform fn ar (before @ [row] @ between @ [row] @ after) =
     transform fn ar before @ [transform_row fn ar row] @ transform fn ar between
       @ [transform_row fn ar row] @ transform fn ar after"
  by (simp add: transform_def)

theorem transform_repeatable_witness:
  "transform sample_functions binary64
     (process [record_at 0 malformed_text, record_at 1 report_text, record_at 1 report_text]) =
     [\<lparr>key = Some ''pi1'', device = None, collected_at = None, cpu_temp = None, gpu_temp = 0\<rparr>,
      \<lparr>key = Some ''pi1'', device = Some ''pi1'', collected_at = Some ''2024-01-01T00:00:00Z'',
       cpu_temp = Some 42, gpu_temp = 0\<rparr>,
      \<lparr>key = Some ''pi1'', device = Some ''pi1'', collected_at = Some ''2024-01-01T00:00:00Z'',
       cpu_temp = Some 42, gpu_temp = 0\<rparr>]"
proof -
  have rows: "process [record_at 0 malformed_text, record_at 1 report_text, record_at 1 report_text]
      = [select_key_value (record_at 0 malformed_text)] @ [select_key_value (record_at 1 report_text)]
        @ [] @ [select_key_value (record_at 1 report_text)] @ []"
    by (simp add: process_select)
  have malformed: "transform sample_functions binary64 [select_key_value (record_at 0 malformed_text)]
      = [\<lparr>key = Some ''pi1'', device = None, collected_at = None, cpu_temp = None, gpu_temp = 0\<rparr>]"
    by code_simp
  have report: "transform_row sample_functions binary64 (select_key_value (record_at 1 report_text))
      = \<lparr>key = Some ''pi1'', device = Some ''pi1'', collected_at = Some ''2024-01-01T00:00:00Z'',
         cpu_temp = Some 42, gpu_temp = 0\<rparr>"
    by code_simp
  have none: "transform sample_functions binary64 [] = []"
    by (simp add: transform_def)
  show ?thesis
    unfolding rows
    using transform_repeatable [of sample_functions binary64
        "[select_key_value (record_at 0 malformed_text)]"
        "select_key_value (record_at 1 report_text)" "[]" "[]"]
    by (simp add: malformed report none)
qed

subsection \<open>A value that is not JSON\<close>

lemma transform_row_unreadable:
  assumes "\<forall>path. get_json_object fn json_text path = None"
    and "kafka_value r = Some json_text"
  shows "transform_row fn ar (select_key_value r) =
     \<lparr>key = kafka_key r, device = None, collected_at = None, cpu_temp = None, gpu_temp = 0\<rparr>"
  using assms
  by (simp add: transform_row_def select_fields_def json_path_select string_col_key
      final_select_def with_cpu_value_def derive_cpu_temp_def sql_when_def)

lemma run_batch_saved:
  "exception q = None
     \<Longrightarrow> save database_info (transform fn ar (process input_df)) (database q) = Saved db
     \<Longrightarrow> run_batch fn ar database_info save q input_df
         = q\<lparr>committed := Suc (committed q), database := db\<rparr>"
  by (simp add: run_batch_def write_to_postgres_def)

lemma run_batch_failed:
  "exception q = None
     \<Longrightarrow> save database_info (transform fn ar (process input_df)) (database q) = SaveFailed msg db
     \<Longrightarrow> run_batch fn ar database_info save q input_df
         = q\<lparr>database := db, exception := Some msg\<rparr>"
  by (simp add: run_batch_def write_to_postgres_def)

lemma run_batch_stopped:
  "exception q \<noteq> None \<Longrightarrow> run_batch fn ar database_info save q input_df = q"
  by (simp add: run_batch_def)

lemma run_batches_stopped:
  "exception q \<noteq> None \<Longrightarrow> foldl (run_batch fn ar database_info save) q batches = q"
  by (induction batches) (simp_all add: run_batch_stopped)

text \<open>
  C2, as the code has it. A record whose value the JSON reader cannot read (NULL at every
  path) is not dropped: its output row carries the key, NULL for \<^verbatim>\<open>device\<close>,
  \<^verbatim>\<open>collected_at\<close> and \<^verbatim>\<open>cpu_temp\<close>, and 0 for \<^verbatim>\<open>gpu_temp\<close>. The output frame has
  one row for every record of the batch, and nothing is counted. The batch is committed
  when the writer returns.
\<close>

theorem unreadable_value_propagates:
  "((\<forall>path. get_json_object fn json_text path = None) \<and> kafka_value r = Some json_text
      \<longrightarrow> transform fn ar (process [r]) =
          [\<lparr>key = kafka_key r, device = None, collected_at = None, cpu_temp = None,
            gpu_temp = 0\<rparr>]) \<and>
   length (transform fn ar (process input_df)) = length input_df \<and>
   (exception q = None
      \<and> save database_info (transform fn ar (process input_df)) (database q) = Saved db
      \<longrightarrow> committed (run_batch fn ar database_info save q input_df) = Suc (committed q)
        \<and> exception (run_batch fn ar database_info save q input_df) = None)"
proof (intro conjI impI)
  assume "(\<forall>path. get_json_object fn json_text path = None) \<and> kafka_value r = Some json_text"
  then have "transform_row fn ar (select_key_value r) =
      \<lparr>key = kafka_key r, device = None, collected_at = None, cpu_temp = None, gpu_temp = 0\<rparr>"
    using transform_row_unreadable [of fn json_text r ar] by blast
  then show "transform fn ar (process [r]) =
      [\<lparr>key = kafka_key r, device = None, collected_at = None, cpu_temp = None, gpu_temp = 0\<rparr>]"
    by (simp add: transform_def process_select)
next
  show "length (transform fn ar (process input_df)) = length input_df"
    by (simp add: transform_def process_select)
next
  assume ok: "exception q = None
      \<and> save database_info (transform fn ar (process input_df)) (database q) = Saved db"
  then show "committed (run_batch fn ar database_info save q input_df) = Suc (committed q)"
    by (simp add: run_batch_saved)
  from ok show "exception (run_batch fn ar database_info save q input_df) = None"
    by (simp add: run_batch_saved)
qed

theorem unreadable_value_propagates_witness:
  "transform sample_functions binary64 (process [record_at 2 malformed_text]) =
     [\<lparr>key = Some ''pi1'', device = None, collected_at = None, cpu_temp = None, gpu_temp = 0\<rparr>] \<and>
   length (transform sample_functions binary64 (process batch_of_five)) = 5 \<and>
   committed (run_batch sample_functions binary64 postgres appending_writer
     \<lparr>committed = 0, database = [], exception = None\<rparr> batch_of_five) = 1"
proof -
  have unreadable: "\<forall>path. get_json_object sample_functions malformed_text path = None"
    by (simp add: sample_functions_def malformed_text_def report_text_def)
  have val: "kafka_value (record_at 2 malformed_text) = Some malformed_text"
    by (simp add: record_at_def)
  have running: "exception \<lparr>committed = 0, database = [] :: (string, rat) canonical_row list,
      exception = None\<rparr> = None"
    by simp
  have saved: "appending_writer postgres (transform sample_functions binary64 (process batch_of_five))
      (database \<lparr>committed = 0, database = [], exception = None\<rparr>)
      = Saved (transform sample_functions binary64 (process batch_of_five))"
    by (simp add: appending_writer_def)
  have five: "length batch_of_five = 5"
    by (simp add: batch_of_five_def)
  from unreadable_value_propagates [of sample_functions malformed_text
      "record_at 2 malformed_text" binary64 batch_of_five
      "\<lparr>committed = 0, database = [], exception = None\<rparr>" appending_writer postgres
      "transform sample_functions binary64 (process batch_of_five)"]
    unreadable val running saved five
  show ?thesis by (simp add: record_at_def)
qed

text \<open>
  C2 as stated fails on a batch of five records whose third value is not JSON: the output
  frame has five rows, not four, and the third is the row of NULLs.
\<close>

theorem malformed_record_counterexample:
  "length (transform sample_functions binary64 (process batch_of_five)) = 5 \<and>
   transform sample_functions binary64 (process batch_of_five) ! 2 =
     \<lparr>key = Some ''pi1'', device = None, collected_at = None, cpu_temp = None, gpu_temp = 0\<rparr>"
  by code_simp

subsection \<open>A failed write\<close>

text \<open>
  C9. When the writer fails on a batch, the number of committed batches is what it was
  before the attempt, the query holds the exception of the writer, and no later batch
  moves the count: the progress never passes a batch that was not saved.
\<close>

theorem failed_write_keeps_progress:
  assumes "exception q = None"
    and "save database_info (transform fn ar (process input_df)) (database q) = SaveFailed msg db"
  shows "committed (run_batch fn ar database_info save q input_df) = committed q \<and>
    exception (run_batch fn ar database_info save q input_df) = Some msg \<and>
    committed (foldl (run_batch fn ar database_info save)
      (run_batch fn ar database_info save q input_df) later_batches) = committed q \<and>
    exception (foldl (run_batch fn ar database_info save)
      (run_batch fn ar database_info save q input_df) later_batches) = Some msg"
proof -
  from assms have step: "run_batch fn ar database_info save q input_df
      = q\<lparr>database := db, exception := Some msg\<rparr>"
    by (rule run_batch_failed)
  then have "exception (run_batch fn ar database_info save q input_df) \<noteq> None"
    by simp
  then have "foldl (run_batch fn ar database_info save)
      (run_batch fn ar database_info save q input_df) later_batches
      = run_batch fn ar database_info save q input_df"
    by (rule run_batches_stopped)
  with step show ?thesis by simp
qed

theorem failed_write_keeps_progress_witness:
  "committed (start_streaming sample_functions binary64 postgres failing_writer []
     [batch_of_five, batch_of_five]) = 0 \<and>
   exception (start_streaming sample_functions binary64 postgres failing_writer []
     [batch_of_five, batch_of_five]) = Some ''connection refused''"
proof -
  have running: "exception \<lparr>committed = 0, database = [] :: (string, rat) canonical_row list,
      exception = None\<rparr> = None"
    by simp
  have failed: "failing_writer postgres (transform sample_functions binary64 (process batch_of_five))
      (database \<lparr>committed = 0, database = [], exception = None\<rparr>)
      = SaveFailed ''connection refused'' []"
    by (simp add: failing_writer_def)
  from failed_write_keeps_progress
    [of "\<lparr>committed = 0, database = [], exception = None\<rparr>" failing_writer postgres
      sample_functions binary64 batch_of_five "''connection refused''" "[]" "[batch_of_five]"]
    running failed
  show ?thesis
    by (simp add: start_streaming_def)
qed

end
